theory Spec2Isabelle
  imports Complex_Main
begin

section \<open>Data model of the labeling tool\<close>

text \<open>
  The labeling page (\<^verbatim>\<open>app/home/labeling/page.tsx\<close>) keeps one \<^verbatim>\<open>LabelingSession\<close> in
  React state. JavaScript numbers that carry identifiers are modelled as \<open>int\<close>; an
  optional field (\<^verbatim>\<open>?:\<close>) is an \<open>option\<close>, \<open>None\<close> standing for \<^verbatim>\<open>undefined\<close>.
\<close>

datatype mode = manual | active_learning

text \<open>
  The numbers of the canvas geometry are JavaScript doubles. A finite double is
  idealised as a real number (\<open>Num\<close>; rounding is not modelled); the two infinities and
  NaN, which a division by zero produces, are values of their own.
\<close>

datatype jsnum = Num real | PosInf | NegInf | NaN

text \<open>
  \<^verbatim>\<open>a / b\<close> on finite doubles: a non-zero dividend over zero is an infinity, zero over
  zero is NaN. The divisor zero is taken as positive zero (the sign of a zero is not
  modelled).
\<close>

definition js_div :: "real \<Rightarrow> real \<Rightarrow> jsnum" where
  "js_div a b =
     (if b \<noteq> 0 then Num (a / b)
      else if 0 < a then PosInf else if a < 0 then NegInf else NaN)"


fun js_le :: "jsnum \<Rightarrow> jsnum \<Rightarrow> bool" where
  "js_le NaN _ = False"
| "js_le _ NaN = False"
| "js_le (Num a) (Num b) = (a \<le> b)"
| "js_le NegInf _ = True"
| "js_le _ NegInf = False"
| "js_le _ PosInf = True"
| "js_le PosInf _ = False"

text \<open>\<^verbatim>\<open>Math.min\<close> and \<^verbatim>\<open>Math.max\<close> of two numbers: NaN if either argument is NaN.\<close>

definition js_min :: "jsnum \<Rightarrow> jsnum \<Rightarrow> jsnum" where
  "js_min a b = (if a = NaN \<or> b = NaN then NaN else if js_le a b then a else b)"

definition js_max :: "jsnum \<Rightarrow> jsnum \<Rightarrow> jsnum" where
  "js_max a b = (if a = NaN \<or> b = NaN then NaN else if js_le a b then b else a)"


text \<open>
  A bounding box \<^verbatim>\<open>[number, number, number, number]\<close>; \<open>finite_box\<close> is the box of four
  finite coordinates.
\<close>

type_synonym bbox = "jsnum \<times> jsnum \<times> jsnum \<times> jsnum"

definition finite_box :: "real \<times> real \<times> real \<times> real \<Rightarrow> bbox" where
  "finite_box b = (case b of (x1, y1, x2, y2) \<Rightarrow> (Num x1, Num y1, Num x2, Num y2))"

record annotation =
  bbox :: bbox
  class_id :: int
  class_name :: string

record LabelingSession =
  mode :: mode
  currentImagePath :: "string option"
  currentImageId :: "string option"
  currentSuggestionId :: "int option"
  annotations :: "annotation list"

text \<open>
  \<^verbatim>\<open>CustomDefectType\<close> (types/custom-defects): the fields the labeling page and the canvas
  read. The field \<^verbatim>\<open>id\<close> is \<open>type_id\<close> here, \<^verbatim>\<open>name\<close> is \<open>type_name\<close>.
\<close>

record CustomDefectType =
  type_id :: int
  type_name :: string
  color :: "string option"
  min_samples_required :: int
  current_sample_count :: int

text \<open>
  JavaScript truthiness, as the guards \<^verbatim>\<open>!selectedClassId\<close>, \<^verbatim>\<open>!session.currentImagePath\<close>
  and \<^verbatim>\<open>session.currentImageId\<close> use it: \<^verbatim>\<open>undefined\<close>, \<^verbatim>\<open>null\<close>, the number 0 and the
  empty string are falsy.
\<close>

definition truthy_str :: "string option \<Rightarrow> bool" where
  "truthy_str v = (case v of None \<Rightarrow> False | Some s \<Rightarrow> s \<noteq> [])"

text \<open>The value \<^verbatim>\<open>useState<LabelingSession>\<close> starts from, and every reset writes.\<close>

definition initial_session :: LabelingSession where
  "initial_session =
     \<lparr>mode = manual, currentImagePath = None, currentImageId = None,
      currentSuggestionId = None, annotations = []\<rparr>"

section \<open>Session handlers that touch the session only\<close>

text \<open>The two mode buttons: \<^verbatim>\<open>setSession(prev => ({ ...prev, mode: m }))\<close>.\<close>

definition selectMode :: "mode \<Rightarrow> LabelingSession \<Rightarrow> LabelingSession" where
  "selectMode m prev = prev\<lparr>mode := m\<rparr>"

definition handleImageUpload :: "string \<Rightarrow> string \<Rightarrow> LabelingSession \<Rightarrow> LabelingSession" where
  "handleImageUpload imagePath imageId prev =
     \<lparr>mode = manual, currentImagePath = Some imagePath, currentImageId = Some imageId,
      currentSuggestionId = None, annotations = []\<rparr>"

definition handleActiveLearningSelect ::
  "string \<Rightarrow> string \<Rightarrow> int \<Rightarrow> LabelingSession \<Rightarrow> LabelingSession" where
  "handleActiveLearningSelect imagePath imageId suggestionId prev =
     \<lparr>mode = active_learning, currentImagePath = Some imagePath, currentImageId = Some imageId,
      currentSuggestionId = Some suggestionId, annotations = []\<rparr>"

text \<open>
  \<^verbatim>\<open>prev.annotations.filter((_, i) => i !== index)\<close>: the entries are paired with their
  positions, the pair whose position is \<^verbatim>\<open>index\<close> is dropped.
\<close>

definition filter_by_index :: "(nat \<Rightarrow> bool) \<Rightarrow> 'a list \<Rightarrow> 'a list" where
  "filter_by_index keep xs = map snd (filter (\<lambda>(i, _). keep i) (enumerate 0 xs))"

definition handleRemoveAnnotation :: "int \<Rightarrow> LabelingSession \<Rightarrow> LabelingSession" where
  "handleRemoveAnnotation index prev =
     prev\<lparr>annotations := filter_by_index (\<lambda>i. int i \<noteq> index) (annotations prev)\<rparr>"

section \<open>The page state and the back end\<close>

text \<open>
  The state hooks of \<^verbatim>\<open>LabelingPage\<close>. \<^verbatim>\<open>selectedClassId\<close> is \<^verbatim>\<open>number | null\<close>.
\<close>

record page =
  defectTypes :: "CustomDefectType list"
  session :: LabelingSession
  selectedClassId :: "int option"
  loading :: bool
  error :: "string option"
  saving :: bool

text \<open>
  What the user is told. The page has no return values: it calls \<^verbatim>\<open>alert\<close>. Each
  constructor is one \<^verbatim>\<open>alert\<close> call of the source:
  \<^item> \<open>NoClassSelected\<close>: \<^verbatim>\<open>alert('Please select a defect class first')\<close>;
  \<^item> \<open>EmptyAnnotationSet\<close>: \<^verbatim>\<open>alert('Please add at least one annotation')\<close>;
  \<^item> \<open>Saved n\<close>: the success message with the number of annotations;
  \<^item> \<open>CommitFailed\<close>: the \<^verbatim>\<open>catch\<close> branch of the save,
    \<^verbatim>\<open>alert(err.response?.data?.detail || 'Failed to save annotations')\<close>.
\<close>

datatype alert = NoClassSelected | EmptyAnnotationSet | Saved nat | CommitFailed

text \<open>
  The form posted for one annotation (\<^verbatim>\<open>formData.append\<close> in the save loop). The JSON
  string under \<^verbatim>\<open>annotations\<close> is kept as the pair it serialises.
\<close>

record FormData =
  defect_type_id :: int
  image_path :: string
  image_id :: "string option"
  annotations_json :: "bbox \<times> string"
  annotation_format :: string
  source :: string

text \<open>
  The back end behind \<^verbatim>\<open>customDefectsAPI\<close>, as far as the page can observe it:
  \<open>requests\<close> logs every form posted to \<^verbatim>\<open>/samples\<close> in order, \<open>samples\<close> holds the
  forms the sample store accepted, \<open>skipped\<close> the suggestion ids the active-learning
  queue was told to skip. Whether a post succeeds is not decided by this repository:
  \<open>accepts k d\<close> says whether the post number \<open>k\<close> (counted over all posts), carrying
  \<open>d\<close>, is answered without an error.
\<close>

record backend =
  requests :: "FormData list"
  samples :: "FormData list"
  skipped :: "int list"

type_synonym sample_oracle = "nat \<Rightarrow> FormData \<Rightarrow> bool"

definition addTrainingSample :: "sample_oracle \<Rightarrow> FormData \<Rightarrow> backend \<Rightarrow> bool \<times> backend" where
  "addTrainingSample accepts d b =
     (if accepts (length (requests b)) d
      then (True, b\<lparr>requests := requests b @ [d], samples := samples b @ [d]\<rparr>)
      else (False, b\<lparr>requests := requests b @ [d]\<rparr>))"

text \<open>
  \<^verbatim>\<open>getCustomDefectTypes(true)\<close> either throws (\<open>Inl\<close>, with the optional
  \<^verbatim>\<open>err.response?.data?.detail\<close>) or returns the list of types.
\<close>

type_synonym registry_reply = "string option + CustomDefectType list"

definition loadDefectTypes :: "registry_reply \<Rightarrow> page \<Rightarrow> page" where
  "loadDefectTypes reply p =
     (case reply of
        Inr types \<Rightarrow>
          (let p1 = p\<lparr>error := None, defectTypes := types\<rparr>;
               p2 = (case types of
                       t # _ \<Rightarrow> (case selectedClassId p of
                                   None \<Rightarrow> p1\<lparr>selectedClassId := Some (type_id t)\<rparr>
                                 | Some c \<Rightarrow> if c = 0 then p1\<lparr>selectedClassId := Some (type_id t)\<rparr>
                                             else p1)
                     | [] \<Rightarrow> p1)
           in p2\<lparr>loading := False\<rparr>)
      | Inl detail \<Rightarrow>
          p\<lparr>error := Some (case detail of None \<Rightarrow> ''Failed to load defect types''
                             | Some m \<Rightarrow> if m = [] then ''Failed to load defect types'' else m),
            loading := False\<rparr>)"

section \<open>Adding an annotation\<close>

text \<open>
  \<^verbatim>\<open>handleAddAnnotation\<close>: the guard \<^verbatim>\<open>!selectedClassId\<close> holds for \<^verbatim>\<open>null\<close> and for the
  number 0; \<^verbatim>\<open>defectTypes.find\<close> is \<open>List.find\<close>; without a match the handler returns
  without a word.
\<close>

definition handleAddAnnotation :: "bbox \<Rightarrow> page \<Rightarrow> page \<times> alert list" where
  "handleAddAnnotation box p =
     (case selectedClassId p of
        None \<Rightarrow> (p, [NoClassSelected])
      | Some cid \<Rightarrow>
          if cid = 0 then (p, [NoClassSelected])
          else (case find (\<lambda>t. type_id t = cid) (defectTypes p) of
                  None \<Rightarrow> (p, [])
                | Some defectType \<Rightarrow>
                    (p\<lparr>session := (session p)\<lparr>annotations := annotations (session p) @
                         [\<lparr>bbox = box, class_id = cid, class_name = type_name defectType\<rparr>]\<rparr>\<rparr>,
                     [])))"

section \<open>Saving and skipping\<close>

definition mkFormData :: "LabelingSession \<Rightarrow> string \<Rightarrow> annotation \<Rightarrow> FormData" where
  "mkFormData s path a =
     \<lparr>defect_type_id = class_id a,
      image_path = path,
      image_id = (if truthy_str (currentImageId s) then currentImageId s else None),
      annotations_json = (bbox a, class_name a),
      annotation_format = ''bbox'',
      source = (if mode s = active_learning then ''active_learning'' else ''manual'')\<rparr>"

text \<open>
  The \<^verbatim>\<open>for ... of\<close> loop of the save: one awaited post per annotation, inside the
  \<^verbatim>\<open>try\<close>. A post that throws leaves the loop for the \<^verbatim>\<open>catch\<close> branch.
\<close>

fun save_loop ::
  "sample_oracle \<Rightarrow> LabelingSession \<Rightarrow> string \<Rightarrow> annotation list \<Rightarrow> backend \<Rightarrow> bool \<times> backend" where
  "save_loop accepts s path [] b = (True, b)"
| "save_loop accepts s path (a # rest) b =
     (case addTrainingSample accepts (mkFormData s path a) b of
        (True, b') \<Rightarrow> save_loop accepts s path rest b'
      | (False, b') \<Rightarrow> (False, b'))"

text \<open>
  \<^verbatim>\<open>handleSaveAnnotations\<close>. The guard returns before \<^verbatim>\<open>setSaving(true)\<close>; after it the
  \<^verbatim>\<open>finally\<close> block always ends with \<^verbatim>\<open>setSaving(false)\<close>. The block for the
  active-learning accept call holds a comment only. \<^verbatim>\<open>loadDefectTypes\<close> catches its
  own errors, so the reload cannot reach the \<^verbatim>\<open>catch\<close> branch of the save.
\<close>

definition handleSaveAnnotations ::
  "sample_oracle \<Rightarrow> registry_reply \<Rightarrow> page \<Rightarrow> backend \<Rightarrow> page \<times> backend \<times> alert list" where
  "handleSaveAnnotations accepts reply p b =
     (case currentImagePath (session p) of
        None \<Rightarrow> (p, b, [EmptyAnnotationSet])
      | Some path \<Rightarrow>
          if path = [] \<or> annotations (session p) = [] then (p, b, [EmptyAnnotationSet])
          else (case save_loop accepts (session p) path (annotations (session p)) b of
                  (True, b') \<Rightarrow>
                    ((loadDefectTypes reply (p\<lparr>session := initial_session\<rparr>))\<lparr>saving := False\<rparr>,
                     b', [Saved (length (annotations (session p)))])
                | (False, b') \<Rightarrow> (p\<lparr>saving := False\<rparr>, b', [CommitFailed])))"

text \<open>The three components of what a save returns.\<close>

abbreviation page_of :: "page \<times> backend \<times> alert list \<Rightarrow> page" where
  "page_of r \<equiv> fst r"

abbreviation backend_of :: "page \<times> backend \<times> alert list \<Rightarrow> backend" where
  "backend_of r \<equiv> fst (snd r)"

abbreviation alerts_of :: "page \<times> backend \<times> alert list \<Rightarrow> alert list" where
  "alerts_of r \<equiv> snd (snd r)"

text \<open>
  \<^verbatim>\<open>handleSkip\<close>: the body of the \<^verbatim>\<open>if\<close> for an active-learning suggestion is a comment
  (\<^verbatim>\<open>TODO: Call skip endpoint when available\<close>), the API client has no such call; the
  handler writes the initial session and nothing else.
\<close>

definition handleSkip :: "page \<Rightarrow> backend \<Rightarrow> page \<times> backend" where
  "handleSkip p b = (p\<lparr>session := initial_session\<rparr>, b)"

text \<open>The page shows the canvas and the save and skip buttons while this holds.\<close>

definition ImageLoaded :: "LabelingSession \<Rightarrow> bool" where
  "ImageLoaded s = truthy_str (currentImagePath s)"

section \<open>The canvas\<close>

text \<open>
  The state hooks of \<^verbatim>\<open>ImageCanvas\<close> (\<^verbatim>\<open>_components/image-canvas.tsx\<close>).
  \<open>loaded_image\<close> is the \<^verbatim>\<open>image\<close> hook: \<open>None\<close> until \<^verbatim>\<open>onload\<close>, then the width and
  height of the image. \<open>canvas_width\<close> and \<open>canvas_height\<close> are the size of the canvas
  element. The sizes, the scale, the pan offset and the mouse position are finite
  numbers; the normalized coordinates, which come out of a division, are \<open>jsnum\<close>.
\<close>

record canvas =
  loaded_image :: "(real \<times> real) option"
  canvas_width :: real
  canvas_height :: real
  scale :: real
  offset :: "real \<times> real"
  isDrawing :: bool
  drawStart :: "(jsnum \<times> jsnum) option"
  currentBox :: "bbox option"
  hoveredIndex :: "nat option"

text \<open>\<^verbatim>\<open>Math.max(0, Math.min(1, v))\<close>\<close>

definition clamp01 :: "jsnum \<Rightarrow> jsnum" where
  "clamp01 v = js_max (Num 0) (js_min (Num 1) v)"

text \<open>
  \<^verbatim>\<open>getCanvasCoordinates\<close>; the argument is the mouse position relative to the canvas
  (\<^verbatim>\<open>e.clientX - rect.left\<close>, \<^verbatim>\<open>e.clientY - rect.top\<close>). \<open>None\<close> is the \<^verbatim>\<open>null\<close> returned
  while no image is loaded.
\<close>

definition getCanvasCoordinates :: "canvas \<Rightarrow> real \<times> real \<Rightarrow> (jsnum \<times> jsnum) option" where
  "getCanvasCoordinates c mouse =
     (case loaded_image c of
        None \<Rightarrow> None
      | Some (image_width, image_height) \<Rightarrow>
          (let mouseX = fst mouse;
               mouseY = snd mouse;
               scaledWidth = image_width * scale c;
               scaledHeight = image_height * scale c;
               x = (canvas_width c - scaledWidth) / 2 + fst (offset c);
               y = (canvas_height c - scaledHeight) / 2 + snd (offset c);
               normalizedX = js_div (mouseX - x) scaledWidth;
               normalizedY = js_div (mouseY - y) scaledHeight
           in Some (clamp01 normalizedX, clamp01 normalizedY)))"

text \<open>
  \<^verbatim>\<open>handleMouseDown\<close>: needs a selected class (\<^verbatim>\<open>!selectedClassId\<close> alerts), then starts
  a box at the mouse position.
\<close>

definition handleMouseDown :: "int option \<Rightarrow> real \<times> real \<Rightarrow> canvas \<Rightarrow> canvas \<times> alert list" where
  "handleMouseDown selected mouse c =
     (if selected = None \<or> selected = Some 0 then (c, [NoClassSelected])
      else (case getCanvasCoordinates c mouse of
              None \<Rightarrow> (c, [])
            | Some coords \<Rightarrow>
                (c\<lparr>isDrawing := True, drawStart := Some coords,
                   currentBox := Some (fst coords, snd coords, fst coords, snd coords)\<rparr>, [])))"

text \<open>\<^verbatim>\<open>Array.prototype.findIndex\<close>; \<open>None\<close> is the result -1, which the caller turns into
  \<^verbatim>\<open>null\<close>.\<close>

fun findIndex :: "('a \<Rightarrow> bool) \<Rightarrow> 'a list \<Rightarrow> nat option" where
  "findIndex P [] = None"
| "findIndex P (x # xs) =
     (if P x then Some 0 else (case findIndex P xs of None \<Rightarrow> None | Some i \<Rightarrow> Some (Suc i)))"

definition handleMouseMove :: "annotation list \<Rightarrow> real \<times> real \<Rightarrow> canvas \<Rightarrow> canvas" where
  "handleMouseMove anns mouse c =
     (if \<not> isDrawing c then c
      else (case drawStart c of
              None \<Rightarrow> c
            | Some start \<Rightarrow>
                (case getCanvasCoordinates c mouse of
                   None \<Rightarrow> c
                 | Some coords \<Rightarrow>
                     c\<lparr>currentBox := Some (js_min (fst start) (fst coords),
                                          js_min (snd start) (snd coords),
                                          js_max (fst start) (fst coords),
                                          js_max (snd start) (snd coords)),
                       hoveredIndex :=
                         findIndex (\<lambda>ann. case bbox ann of (x1, y1, x2, y2) \<Rightarrow>
                                       js_le x1 (fst coords) \<and> js_le (fst coords) x2 \<and>
                                       js_le y1 (snd coords) \<and> js_le (snd coords) y2) anns\<rparr>)))"

text \<open>
  One drag: the mouse goes down at \<open>m0\<close> and moves to \<open>m1\<close> (the page renders between
  the two events, so the second handler sees the state the first one wrote).
\<close>

definition drag ::
  "int option \<Rightarrow> annotation list \<Rightarrow> real \<times> real \<Rightarrow> real \<times> real \<Rightarrow> canvas \<Rightarrow> canvas" where
  "drag selected anns m0 m1 c = handleMouseMove anns m1 (fst (handleMouseDown selected m0 c))"


section \<open>Sequences of user actions\<close>

text \<open>
  The operations a user has on the labeling page: the two mode buttons, the uploader, a
  suggestion of the active-learning panel, a finished box, a removal, save and skip.
  \<open>apply_op\<close> runs one of them on the page and the back end; the sample oracle and the
  registry's reply to a reload are fixed for a run.
\<close>

datatype op =
    SelectMode mode
  | AcquireUpload string string
  | AcquireSuggestion string string int
  | AddAnnotation bbox
  | RemoveAnnotation int
  | Save
  | Skip

fun apply_op :: "sample_oracle \<Rightarrow> registry_reply \<Rightarrow> op \<Rightarrow> page \<times> backend \<Rightarrow> page \<times> backend" where
  "apply_op accepts reply (SelectMode m) (p, b) = (p\<lparr>session := selectMode m (session p)\<rparr>, b)"
| "apply_op accepts reply (AcquireUpload path ident) (p, b) =
     (p\<lparr>session := handleImageUpload path ident (session p)\<rparr>, b)"
| "apply_op accepts reply (AcquireSuggestion path ident sid) (p, b) =
     (p\<lparr>session := handleActiveLearningSelect path ident sid (session p)\<rparr>, b)"
| "apply_op accepts reply (AddAnnotation box) (p, b) = (fst (handleAddAnnotation box p), b)"
| "apply_op accepts reply (RemoveAnnotation i) (p, b) =
     (p\<lparr>session := handleRemoveAnnotation i (session p)\<rparr>, b)"
| "apply_op accepts reply Save (p, b) =
     (case handleSaveAnnotations accepts reply p b of (p', b', _) \<Rightarrow> (p', b'))"
| "apply_op accepts reply Skip (p, b) = handleSkip p b"

fun run :: "sample_oracle \<Rightarrow> registry_reply \<Rightarrow> op list \<Rightarrow> page \<times> backend \<Rightarrow> page \<times> backend" where
  "run accepts reply [] st = st"
| "run accepts reply (a # rest) st = run accepts reply rest (apply_op accepts reply a st)"

text \<open>The invariant of the data model: a suggestion id is set only in active-learning mode.\<close>

definition suggestion_only_in_active_learning :: "LabelingSession \<Rightarrow> bool" where
  "suggestion_only_in_active_learning s =
     (currentSuggestionId s = None \<or> mode s = active_learning)"

text \<open>
  A run in which the manual mode button is never pressed while a suggestion id is set.
\<close>

fun keeps_suggestion_mode ::
  "sample_oracle \<Rightarrow> registry_reply \<Rightarrow> op list \<Rightarrow> page \<times> backend \<Rightarrow> bool" where
  "keeps_suggestion_mode accepts reply [] st = True"
| "keeps_suggestion_mode accepts reply (a # rest) st =
     ((a \<noteq> SelectMode manual \<or> currentSuggestionId (session (fst st)) = None) \<and>
      keeps_suggestion_mode accepts reply rest (apply_op accepts reply a st))"

section \<open>Concrete pages\<close>

definition porosity :: CustomDefectType where
  "porosity = \<lparr>type_id = 2, type_name = ''Porosity'', color = Some ''#ff0000'',
               min_samples_required = 50, current_sample_count = 3\<rparr>"

definition box_a :: annotation where
  "box_a = \<lparr>bbox = finite_box (1/10, 1/10, 3/10, 3/10), class_id = 2, class_name = ''Porosity''\<rparr>"

definition box_b :: annotation where
  "box_b = \<lparr>bbox = finite_box (1/2, 1/2, 7/10, 9/10), class_id = 2, class_name = ''Porosity''\<rparr>"

definition box_c :: annotation where
  "box_c = \<lparr>bbox = finite_box (0, 0, 1/5, 1/5), class_id = 2, class_name = ''Porosity''\<rparr>"

definition empty_page :: page where
  "empty_page = \<lparr>defectTypes = [porosity], session = initial_session,
                 selectedClassId = Some 2, loading = False, error = None, saving = False\<rparr>"

text \<open>A manually uploaded image with three boxes.\<close>

definition manual_page :: page where
  "manual_page = empty_page\<lparr>session :=
     \<lparr>mode = manual, currentImagePath = Some ''data:img1'', currentImageId = Some ''img1'',
      currentSuggestionId = None, annotations = [box_a, box_b, box_c]\<rparr>\<rparr>"

text \<open>The suggestion 42 of the active-learning queue with one box.\<close>

definition suggestion_page :: page where
  "suggestion_page = empty_page\<lparr>session :=
     \<lparr>mode = active_learning, currentImagePath = Some ''/queue/42.png'',
      currentImageId = Some ''al_42'', currentSuggestionId = Some 42, annotations = [box_a]\<rparr>\<rparr>"

definition empty_backend :: backend where
  "empty_backend = \<lparr>requests = [], samples = [], skipped = []\<rparr>"

definition accept_all :: sample_oracle where
  "accept_all k d = True"

definition reject_all :: sample_oracle where
  "reject_all k d = False"

text \<open>The store answers the first post and fails from the second on.\<close>

definition accept_first :: sample_oracle where
  "accept_first k d = (k < 1)"

definition no_types :: registry_reply where
  "no_types = Inr []"


definition idle_canvas :: canvas where
  "idle_canvas =
     \<lparr>loaded_image = Some (1000, 500), canvas_width = 800, canvas_height = 600, scale = 1/2,
      offset = (0, 0), isDrawing = False, drawStart = None,
      currentBox = None, hoveredIndex = None\<rparr>"

text \<open>
  The same image loaded while the container has width 0: \<^verbatim>\<open>onload\<close> sets the scale to
  \<^verbatim>\<open>Math.min(0 / 1000, 600 / 500, 1) * 0.9\<close>, which is 0, and the canvas keeps its
  fallback width of 800. The scaled image is 0 by 0 at the centre (400, 300).
\<close>

definition zero_scale_canvas :: canvas where
  "zero_scale_canvas = idle_canvas\<lparr>scale := 0\<rparr>"

text \<open>A coordinate that lies in the unit interval, by the comparisons of JavaScript.\<close>

definition in_unit_interval :: "jsnum \<Rightarrow> bool" where
  "in_unit_interval v = (js_le (Num 0) v \<and> js_le v (Num 1))"

text \<open>A fresh upload: an image and no box yet.\<close>

definition fresh_upload_page :: page where
  "fresh_upload_page =
     empty_page\<lparr>session := handleImageUpload ''data:img2'' ''img2'' (session empty_page)\<rparr>"

text \<open>
  A round through both modes: a suggestion is labelled and saved, then an upload is
  labelled and skipped.
\<close>

definition labeling_round :: "op list" where
  "labeling_round =
     [SelectMode active_learning, AcquireSuggestion ''/queue/42.png'' ''al_42'' 42,
      AddAnnotation (finite_box (1/10, 1/10, 3/10, 3/10)),
      AddAnnotation (finite_box (1/2, 1/2, 7/10, 9/10)),
      RemoveAnnotation 0, SelectMode active_learning, Save,
      SelectMode manual, AcquireUpload ''data:img1'' ''img1'',
      AddAnnotation (finite_box (0, 0, 1/5, 1/5)), Skip]"

text \<open>A suggestion is opened, then the manual mode button is pressed.\<close>

definition switch_back :: "op list" where
  "switch_back =
     [SelectMode active_learning, AcquireSuggestion ''/queue/42.png'' ''al_42'' 42,
      SelectMode manual]"

section \<open>Unfolding the handlers and the concrete pages\<close>

lemmas concrete_defs =
  finite_box_def manual_page_def suggestion_page_def empty_page_def empty_backend_def initial_session_def
  box_a_def box_b_def box_c_def porosity_def accept_all_def reject_all_def accept_first_def
  no_types_def

lemmas handler_defs =
  selectMode_def handleImageUpload_def handleActiveLearningSelect_def handleRemoveAnnotation_def
  handleAddAnnotation_def handleSaveAnnotations_def handleSkip_def addTrainingSample_def
  loadDefectTypes_def filter_by_index_def mkFormData_def truthy_str_def

section \<open>Removing an annotation\<close>

lemma filter_enumerate_all:
  "\<forall>p \<in> set (enumerate n xs). keep (fst p) \<Longrightarrow>
   map snd (filter (\<lambda>(i, _). keep i) (enumerate n xs)) = xs"
  by (induction xs arbitrary: n) auto

lemma filter_enumerate_drop_one:
  "k < length xs \<Longrightarrow>
   map snd (filter (\<lambda>(i, _). i \<noteq> n + k) (enumerate n xs)) = take k xs @ drop (Suc k) xs"
proof (induction xs arbitrary: n k)
  case Nil
  then show ?case by simp
next
  case (Cons a xs)
  show ?case
  proof (cases k)
    case 0
    have "map snd (filter (\<lambda>(i, _). i \<noteq> n) (enumerate (Suc n) xs)) = xs"
      by (rule filter_enumerate_all) (auto simp: in_set_enumerate_eq)
    with 0 show ?thesis by simp
  next
    case (Suc j)
    with Cons.prems have "j < length xs" by simp
    from Cons.IH [OF this, of "Suc n"] Suc show ?thesis by simp
  qed
qed

lemma filter_by_index_in_range:
  "k < length xs \<Longrightarrow> filter_by_index (\<lambda>i. int i \<noteq> int k) xs = take k xs @ drop (Suc k) xs"
  using filter_enumerate_drop_one [of k xs 0] by (simp add: filter_by_index_def)

lemma filter_by_index_out_of_range:
  "index < 0 \<or> int (length xs) \<le> index \<Longrightarrow> filter_by_index (\<lambda>i. int i \<noteq> index) xs = xs"
  unfolding filter_by_index_def
  by (rule filter_enumerate_all) (auto simp: in_set_enumerate_eq)

text \<open>
  Claim C8. \<^verbatim>\<open>removeAnnotation(i)\<close> with \<open>i\<close> in range yields the entries before position
  \<open>i\<close> followed by the entries after it, in their order: one entry fewer, the one that
  sat at position \<open>i\<close> (where the entries are pairwise different, the removed entry no
  longer occurs in the list). With an index out of range, negative ones included, the
  session is unchanged.
\<close>

theorem removeAnnotation_removes_position:
  "(0 \<le> index \<and> index < int (length (annotations s)) \<longrightarrow>
      annotations (handleRemoveAnnotation index s) =
        take (nat index) (annotations s) @ drop (Suc (nat index)) (annotations s)
      \<and> length (annotations (handleRemoveAnnotation index s)) + 1 = length (annotations s)
      \<and> (distinct (annotations s) \<longrightarrow>
           annotations s ! nat index \<notin> set (annotations (handleRemoveAnnotation index s))))
   \<and> (index < 0 \<or> int (length (annotations s)) \<le> index \<longrightarrow>
        handleRemoveAnnotation index s = s)"
proof (intro conjI impI)
  assume r: "0 \<le> index \<and> index < int (length (annotations s))"
  then have k: "nat index < length (annotations s)" and ik: "int (nat index) = index"
    by auto
  from filter_by_index_in_range [OF k] ik
  show eq: "annotations (handleRemoveAnnotation index s) =
        take (nat index) (annotations s) @ drop (Suc (nat index)) (annotations s)"
    by (simp add: handleRemoveAnnotation_def)
  from k show "length (annotations (handleRemoveAnnotation index s)) + 1 = length (annotations s)"
    unfolding eq by simp
  assume d: "distinct (annotations s)"
  have "annotations s = take (nat index) (annotations s) @ annotations s ! nat index
          # drop (Suc (nat index)) (annotations s)"
    using k by (rule id_take_nth_drop)
  with d have "distinct (take (nat index) (annotations s) @ annotations s ! nat index
          # drop (Suc (nat index)) (annotations s))"
    by simp
  then show "annotations s ! nat index \<notin> set (annotations (handleRemoveAnnotation index s))"
    unfolding eq by auto
next
  assume "index < 0 \<or> int (length (annotations s)) \<le> index"
  from filter_by_index_out_of_range [OF this]
  show "handleRemoveAnnotation index s = s"
    by (simp add: handleRemoveAnnotation_def)
qed

text \<open>Removing position 1 of three boxes, and a removal at position -1.\<close>

theorem removeAnnotation_removes_position_witness:
  "0 \<le> (1::int) \<and> (1::int) < int (length (annotations (session manual_page)))
   \<and> annotations (handleRemoveAnnotation 1 (session manual_page)) = [box_a, box_c]
   \<and> (-1::int) < 0
   \<and> handleRemoveAnnotation (-1) (session manual_page) = session manual_page"
  using removeAnnotation_removes_position [of 1 "session manual_page"]
        removeAnnotation_removes_position [of "-1" "session manual_page"]
  by (simp add: manual_page_def)

section \<open>The save loop\<close>

lemma session_loadDefectTypes: "session (loadDefectTypes reply p) = session p"
  by (simp add: loadDefectTypes_def Let_def split: sum.splits list.splits option.splits)

lemma addTrainingSample_True:
  "addTrainingSample accepts d b = (True, b') \<Longrightarrow>
     accepts (length (requests b)) d \<and> requests b' = requests b @ [d] \<and>
     samples b' = samples b @ [d] \<and> skipped b' = skipped b"
  by (auto simp: addTrainingSample_def split: if_splits)

lemma addTrainingSample_False:
  "addTrainingSample accepts d b = (False, b') \<Longrightarrow>
     \<not> accepts (length (requests b)) d \<and> requests b' = requests b @ [d] \<and>
     samples b' = samples b \<and> skipped b' = skipped b"
  by (auto simp: addTrainingSample_def split: if_splits)

lemma save_loop_success:
  "save_loop accepts s path anns b = (True, b') \<Longrightarrow>
     requests b' = requests b @ map (mkFormData s path) anns \<and>
     samples b' = samples b @ map (mkFormData s path) anns \<and>
     skipped b' = skipped b"
proof (induction anns arbitrary: b)
  case Nil
  then show ?case by simp
next
  case (Cons a anns)
  obtain ok b1 where r: "addTrainingSample accepts (mkFormData s path a) b = (ok, b1)"
    by (cases "addTrainingSample accepts (mkFormData s path a) b")
  show ?case
  proof (cases ok)
    case True
    with r have r': "addTrainingSample accepts (mkFormData s path a) b = (True, b1)" by simp
    with Cons.prems have "save_loop accepts s path anns b1 = (True, b')" by simp
    from Cons.IH [OF this] addTrainingSample_True [OF r']
    show ?thesis by simp
  next
    case False
    with r Cons.prems show ?thesis by simp
  qed
qed

lemma save_loop_failure:
  "save_loop accepts s path anns b = (False, b') \<Longrightarrow>
     \<exists>j < length anns.
       requests b' = requests b @ map (mkFormData s path) (take (Suc j) anns) \<and>
       samples b' = samples b @ map (mkFormData s path) (take j anns) \<and>
       \<not> accepts (length (requests b) + j) (mkFormData s path (anns ! j)) \<and>
       (\<forall>i < j. accepts (length (requests b) + i) (mkFormData s path (anns ! i))) \<and>
       skipped b' = skipped b"
proof (induction anns arbitrary: b)
  case Nil
  then show ?case by simp
next
  case (Cons a anns)
  obtain ok b1 where r: "addTrainingSample accepts (mkFormData s path a) b = (ok, b1)"
    by (cases "addTrainingSample accepts (mkFormData s path a) b")
  show ?case
  proof (cases ok)
    case True
    from True r have r': "addTrainingSample accepts (mkFormData s path a) b = (True, b1)" by simp
    note f = addTrainingSample_True [OF r']
    from True r Cons.prems have "save_loop accepts s path anns b1 = (False, b')" by simp
    from Cons.IH [OF this] obtain j where j: "j < length anns"
      "requests b' = requests b1 @ map (mkFormData s path) (take (Suc j) anns)"
      "samples b' = samples b1 @ map (mkFormData s path) (take j anns)"
      "\<not> accepts (length (requests b1) + j) (mkFormData s path (anns ! j))"
      "\<forall>i < j. accepts (length (requests b1) + i) (mkFormData s path (anns ! i))"
      "skipped b' = skipped b1"
      by blast
    have all: "\<forall>i < Suc j. accepts (length (requests b) + i) (mkFormData s path ((a # anns) ! i))"
    proof (intro allI impI)
      fix i assume "i < Suc j"
      show "accepts (length (requests b) + i) (mkFormData s path ((a # anns) ! i))"
      proof (cases i)
        case 0
        with f show ?thesis by simp
      next
        case (Suc i')
        with \<open>i < Suc j\<close> j(5) f show ?thesis by auto
      qed
    qed
    show ?thesis
      apply (rule exI [of _ "Suc j"])
      using j f all by simp
  next
    case False
    from False r have r': "addTrainingSample accepts (mkFormData s path a) b = (False, b1)" by simp
    note f = addTrainingSample_False [OF r']
    from False r Cons.prems have "b' = b1" by simp
    with f show ?thesis
      by (intro exI [of _ 0]) simp
  qed
qed


lemma save_loop_rejected:
  "j < length anns \<Longrightarrow>
   \<not> accepts (length (requests b) + j) (mkFormData s path (anns ! j)) \<Longrightarrow>
   fst (save_loop accepts s path anns b) = False"
proof (induction anns arbitrary: b j)
  case Nil
  then show ?case by simp
next
  case (Cons a anns)
  obtain ok b1 where r: "addTrainingSample accepts (mkFormData s path a) b = (ok, b1)"
    by (cases "addTrainingSample accepts (mkFormData s path a) b")
  show ?case
  proof (cases ok)
    case True
    with r have r': "addTrainingSample accepts (mkFormData s path a) b = (True, b1)" by simp
    note f = addTrainingSample_True [OF r']
    with Cons.prems(2) obtain j' where j': "j = Suc j'" by (cases j) auto
    with Cons.prems f have "j' < length anns"
      "\<not> accepts (length (requests b1) + j') (mkFormData s path (anns ! j'))"
      by auto
    from Cons.IH [OF this] r' show ?thesis by simp
  next
    case False
    with r show ?thesis by simp
  qed
qed

section \<open>What a save reports\<close>

lemma save_Saved:
  "alerts_of (handleSaveAnnotations accepts reply p b) = [Saved n] \<Longrightarrow>
     \<exists>path. currentImagePath (session p) = Some path \<and>
       save_loop accepts (session p) path (annotations (session p)) b =
         (True, backend_of (handleSaveAnnotations accepts reply p b)) \<and>
       page_of (handleSaveAnnotations accepts reply p b) =
         (loadDefectTypes reply (p\<lparr>session := initial_session\<rparr>))\<lparr>saving := False\<rparr>"
  by (auto simp: handleSaveAnnotations_def split: option.splits if_splits prod.splits bool.splits)

lemma save_CommitFailed:
  "alerts_of (handleSaveAnnotations accepts reply p b) = [CommitFailed] \<Longrightarrow>
     \<exists>path. currentImagePath (session p) = Some path \<and> path \<noteq> [] \<and>
       annotations (session p) \<noteq> [] \<and>
       save_loop accepts (session p) path (annotations (session p)) b =
         (False, backend_of (handleSaveAnnotations accepts reply p b)) \<and>
       page_of (handleSaveAnnotations accepts reply p b) = p\<lparr>saving := False\<rparr>"
  by (auto simp: handleSaveAnnotations_def split: option.splits if_splits prod.splits bool.splits)

lemma save_reports_failure:
  assumes "currentImagePath (session p) = Some path" and "path \<noteq> []"
    and "j < length (annotations (session p))"
    and "\<not> accepts (length (requests b) + j)
            (mkFormData (session p) path (annotations (session p) ! j))"
  shows "alerts_of (handleSaveAnnotations accepts reply p b) = [CommitFailed]"
proof -
  from assms(3) have ne: "annotations (session p) \<noteq> []" by auto
  have "fst (save_loop accepts (session p) path (annotations (session p)) b) = False"
    using assms(3,4) by (rule save_loop_rejected)
  then obtain b' where
    "save_loop accepts (session p) path (annotations (session p)) b = (False, b')"
    by (cases "save_loop accepts (session p) path (annotations (session p)) b") auto
  with assms(1,2) ne show ?thesis by (simp add: handleSaveAnnotations_def)
qed

section \<open>A successful save\<close>

text \<open>
  Claim C1, as amended. For every session with an image loaded and at least one
  annotation, a save that reports success leaves the session equal to the initial
  session: the mode is \<open>manual\<close> whatever it was before the save, image path and image
  id are cleared and the annotation sequence is empty.
\<close>

theorem save_success_resets_to_initial_session:
  assumes "ImageLoaded (session p)" and "annotations (session p) \<noteq> []"
    and "alerts_of (handleSaveAnnotations accepts reply p b) = [Saved n]"
  shows "session (page_of (handleSaveAnnotations accepts reply p b)) = initial_session
       \<and> mode (session (page_of (handleSaveAnnotations accepts reply p b))) = manual
       \<and> currentImagePath (session (page_of (handleSaveAnnotations accepts reply p b))) = None
       \<and> currentImageId (session (page_of (handleSaveAnnotations accepts reply p b))) = None
       \<and> annotations (session (page_of (handleSaveAnnotations accepts reply p b))) = []"
proof -
  from save_Saved [OF assms(3)]
  have "session (page_of (handleSaveAnnotations accepts reply p b)) = initial_session"
    by (auto simp: session_loadDefectTypes)
  then show ?thesis by (simp add: initial_session_def)
qed

text \<open>The three boxes of the manual page are saved by a store that accepts every post.\<close>

theorem save_success_resets_to_initial_session_witness:
  "ImageLoaded (session manual_page) \<and> annotations (session manual_page) \<noteq> []
   \<and> alerts_of (handleSaveAnnotations accept_all no_types manual_page empty_backend) = [Saved 3]
   \<and> session (page_of (handleSaveAnnotations accept_all no_types manual_page empty_backend))
       = initial_session"
proof -
  have h1: "ImageLoaded (session manual_page)"
    by (simp add: ImageLoaded_def truthy_str_def concrete_defs)
  have h2: "annotations (session manual_page) \<noteq> []"
    by (simp add: concrete_defs)
  have h3: "alerts_of (handleSaveAnnotations accept_all no_types manual_page empty_backend)
              = [Saved 3]"
    by (simp add: handleSaveAnnotations_def addTrainingSample_def concrete_defs)
  from save_success_resets_to_initial_session [OF h1 h2 h3] h1 h2 h3 show ?thesis by simp
qed

text \<open>
  The mode is not preserved: the suggestion page is in active-learning mode, its save
  succeeds, and the mode after the save differs from the mode before.
\<close>

theorem save_preserves_mode_counterexample:
  "ImageLoaded (session suggestion_page) \<and> annotations (session suggestion_page) \<noteq> []
   \<and> alerts_of (handleSaveAnnotations accept_all no_types suggestion_page empty_backend)
       = [Saved 1]
   \<and> mode (session suggestion_page) = active_learning
   \<and> mode (session (page_of
        (handleSaveAnnotations accept_all no_types suggestion_page empty_backend)))
       \<noteq> mode (session suggestion_page)"
  by (simp add: ImageLoaded_def truthy_str_def handleSaveAnnotations_def addTrainingSample_def
      loadDefectTypes_def concrete_defs)

section \<open>A save without annotations\<close>

text \<open>
  Claim C6. For every session with zero annotations, the save alerts
  \<open>EmptyAnnotationSet\<close>, posts nothing (the back end is the one it was) and leaves the
  page, and so the session, unchanged.
\<close>

theorem save_without_annotations_is_rejected:
  "annotations (session p) = [] \<Longrightarrow>
     handleSaveAnnotations accepts reply p b = (p, b, [EmptyAnnotationSet])"
  by (simp add: handleSaveAnnotations_def split: option.splits)

text \<open>A freshly uploaded image has no box; saving it is refused.\<close>

theorem save_without_annotations_is_rejected_witness:
  "annotations (session fresh_upload_page) = []
   \<and> handleSaveAnnotations accept_all no_types fresh_upload_page empty_backend
       = (fresh_upload_page, empty_backend, [EmptyAnnotationSet])"
proof -
  have h: "annotations (session fresh_upload_page) = []"
    by (simp add: fresh_upload_page_def handleImageUpload_def)
  from save_without_annotations_is_rejected [OF h] h show ?thesis by simp
qed

section \<open>A save with a failing commit\<close>

text \<open>
  Claim C4, as amended. For every save of a session with an image loaded in which the
  store refuses the post of some annotation \<open>j\<close>, the save reports \<open>CommitFailed\<close>;
  the posts are issued in the order of the annotations up to and including the first
  refused one (position \<open>k \<le> j\<close>) and no later annotation is posted; the \<open>k\<close> posts
  accepted before it stay in the store.
\<close>

theorem save_stops_at_first_failed_commit:
  assumes "currentImagePath (session p) = Some path" and "path \<noteq> []"
    and "j < length (annotations (session p))"
    and "\<not> accepts (length (requests b) + j)
            (mkFormData (session p) path (annotations (session p) ! j))"
  shows "alerts_of (handleSaveAnnotations accepts reply p b) = [CommitFailed] \<and>
    (\<exists>k \<le> j.
      requests (backend_of (handleSaveAnnotations accepts reply p b)) =
        requests b @ map (mkFormData (session p) path) (take (Suc k) (annotations (session p))) \<and>
      samples (backend_of (handleSaveAnnotations accepts reply p b)) =
        samples b @ map (mkFormData (session p) path) (take k (annotations (session p))) \<and>
      \<not> accepts (length (requests b) + k)
          (mkFormData (session p) path (annotations (session p) ! k)))"
proof -
  have cf: "alerts_of (handleSaveAnnotations accepts reply p b) = [CommitFailed]"
    using assms by (rule save_reports_failure)
  from save_CommitFailed [OF cf] assms(1) have
    l: "save_loop accepts (session p) path (annotations (session p)) b =
         (False, backend_of (handleSaveAnnotations accepts reply p b))"
    by auto
  from save_loop_failure [OF l] obtain k where k: "k < length (annotations (session p))"
    "requests (backend_of (handleSaveAnnotations accepts reply p b)) =
        requests b @ map (mkFormData (session p) path) (take (Suc k) (annotations (session p)))"
    "samples (backend_of (handleSaveAnnotations accepts reply p b)) =
        samples b @ map (mkFormData (session p) path) (take k (annotations (session p)))"
    "\<not> accepts (length (requests b) + k)
        (mkFormData (session p) path (annotations (session p) ! k))"
    "\<forall>i < k. accepts (length (requests b) + i)
        (mkFormData (session p) path (annotations (session p) ! i))"
    by blast
  from k(5) assms(4) have "k \<le> j" by (meson not_le_imp_less)
  with k cf show ?thesis by blast
qed

text \<open>
  Three boxes and a store that fails from the second post on: the third post would be
  refused too, two posts are made and one sample is stored.
\<close>

theorem save_stops_at_first_failed_commit_witness:
  "currentImagePath (session manual_page) = Some ''data:img1''
   \<and> (2::nat) < length (annotations (session manual_page))
   \<and> alerts_of (handleSaveAnnotations accept_first no_types manual_page empty_backend)
       = [CommitFailed]
   \<and> requests (backend_of (handleSaveAnnotations accept_first no_types manual_page empty_backend))
       = map (mkFormData (session manual_page) ''data:img1'') [box_a, box_b]
   \<and> samples (backend_of (handleSaveAnnotations accept_first no_types manual_page empty_backend))
       = map (mkFormData (session manual_page) ''data:img1'') [box_a]"
proof -
  have h: "currentImagePath (session manual_page) = Some ''data:img1''" "''data:img1'' \<noteq> []"
    "(2::nat) < length (annotations (session manual_page))"
    "\<not> accept_first (length (requests empty_backend) + 2)
        (mkFormData (session manual_page) ''data:img1'' (annotations (session manual_page) ! 2))"
    by (simp_all add: manual_page_def accept_first_def)
  from save_stops_at_first_failed_commit
         [where accepts = accept_first and b = empty_backend and p = manual_page and j = 2
            and path = "''data:img1''" and reply = no_types, OF h]
       h(1,3)
  show ?thesis
    by (simp add: handleSaveAnnotations_def addTrainingSample_def concrete_defs)
qed

text \<open>
  Not every commit is attempted: with three boxes and a store that refuses the first
  post, one post is made, not three.
\<close>

theorem save_attempts_every_commit_counterexample:
  "alerts_of (handleSaveAnnotations reject_all no_types manual_page empty_backend) = [CommitFailed]
   \<and> length (annotations (session manual_page)) = 3
   \<and> length (requests (backend_of
        (handleSaveAnnotations reject_all no_types manual_page empty_backend)))
       = length (requests empty_backend) + 1"
  by (simp add: handleSaveAnnotations_def addTrainingSample_def concrete_defs)

text \<open>
  Claim C7. For every save of a session with an image loaded in which the store refuses
  the post of some annotation, the save reports \<open>CommitFailed\<close> and the session is the
  one it was: the image is still loaded and the annotation sequence is intact. Of the
  whole page only the \<open>saving\<close> flag is written (to false).
\<close>

theorem failed_save_keeps_session:
  assumes "currentImagePath (session p) = Some path" and "path \<noteq> []"
    and "j < length (annotations (session p))"
    and "\<not> accepts (length (requests b) + j)
            (mkFormData (session p) path (annotations (session p) ! j))"
  shows "alerts_of (handleSaveAnnotations accepts reply p b) = [CommitFailed]
       \<and> session (page_of (handleSaveAnnotations accepts reply p b)) = session p
       \<and> ImageLoaded (session (page_of (handleSaveAnnotations accepts reply p b)))
       \<and> annotations (session (page_of (handleSaveAnnotations accepts reply p b)))
           = annotations (session p)
       \<and> page_of (handleSaveAnnotations accepts reply p b) = p\<lparr>saving := False\<rparr>"
proof -
  have cf: "alerts_of (handleSaveAnnotations accepts reply p b) = [CommitFailed]"
    using assms by (rule save_reports_failure)
  from save_CommitFailed [OF cf] cf show ?thesis
    by (auto simp: ImageLoaded_def truthy_str_def)
qed

text \<open>The one box of the suggestion page survives a refused post.\<close>

theorem failed_save_keeps_session_witness:
  "currentImagePath (session suggestion_page) = Some ''/queue/42.png''
   \<and> (0::nat) < length (annotations (session suggestion_page))
   \<and> alerts_of (handleSaveAnnotations reject_all no_types suggestion_page empty_backend)
       = [CommitFailed]
   \<and> page_of (handleSaveAnnotations reject_all no_types suggestion_page empty_backend)
       = suggestion_page
   \<and> annotations (session (page_of
        (handleSaveAnnotations reject_all no_types suggestion_page empty_backend))) = [box_a]"
proof -
  have h: "currentImagePath (session suggestion_page) = Some ''/queue/42.png''"
    "''/queue/42.png'' \<noteq> []"
    "(0::nat) < length (annotations (session suggestion_page))"
    "\<not> reject_all (length (requests empty_backend) + 0)
        (mkFormData (session suggestion_page) ''/queue/42.png''
           (annotations (session suggestion_page) ! 0))"
    by (simp_all add: suggestion_page_def reject_all_def)
  from failed_save_keeps_session
         [where accepts = reject_all and b = empty_backend and p = suggestion_page and j = 0
            and path = "''/queue/42.png''" and reply = no_types, OF h]
       h(1,3)
  show ?thesis
    by (simp add: suggestion_page_def empty_page_def)
qed

section \<open>Skipping\<close>

text \<open>
  Claim C3, as amended. For every session, a suggestion id set or not, skip writes the
  initial session (no image, no annotations) and makes no call to the back end: the
  list of suggestions marked as skipped, like the rest of the back end, is the one it
  was.
\<close>

theorem skip_resets_and_calls_nothing:
  "session (fst (handleSkip p b)) = initial_session
   \<and> \<not> ImageLoaded (session (fst (handleSkip p b)))
   \<and> annotations (session (fst (handleSkip p b))) = []
   \<and> skipped (snd (handleSkip p b)) = skipped b
   \<and> snd (handleSkip p b) = b"
  by (simp add: handleSkip_def ImageLoaded_def truthy_str_def initial_session_def)

text \<open>
  Suggestion 42 is open in active-learning mode; after the skip the queue has not been
  told about it.
\<close>

theorem skip_marks_suggestion_counterexample:
  "mode (session suggestion_page) = active_learning
   \<and> currentSuggestionId (session suggestion_page) = Some 42
   \<and> skipped (snd (handleSkip suggestion_page empty_backend)) \<noteq> skipped empty_backend @ [42]"
  by (simp add: handleSkip_def concrete_defs)

section \<open>Adding an annotation\<close>




text \<open>
  Claim C10. For every call of \<^verbatim>\<open>handleAddAnnotation\<close> with a selected class id (one
  that passes the guard \<^verbatim>\<open>!selectedClassId\<close>, so not 0) that is the id of no defect type
  in the loaded list, the page is unchanged (the annotation count with it) and no
  alert is raised.
\<close>

theorem add_with_unknown_class_is_silent:
  assumes "selectedClassId p = Some cid" and "cid \<noteq> 0"
    and "\<forall>t \<in> set (defectTypes p). type_id t \<noteq> cid"
  shows "handleAddAnnotation box p = (p, [])"
proof -
  from assms(3) have "find (\<lambda>t. type_id t = cid) (defectTypes p) = None"
    by (simp add: find_None_iff)
  with assms(1,2) show ?thesis by (simp add: handleAddAnnotation_def)
qed

text \<open>Class 7 is selected, the list holds class 2 only.\<close>

theorem add_with_unknown_class_is_silent_witness:
  "selectedClassId (empty_page\<lparr>selectedClassId := Some 7\<rparr>) = Some 7 \<and> (7::int) \<noteq> 0
   \<and> handleAddAnnotation (finite_box (1/10, 1/10, 3/10, 3/10))
         (empty_page\<lparr>selectedClassId := Some 7\<rparr>)
       = (empty_page\<lparr>selectedClassId := Some 7\<rparr>, [])"
proof -
  have h1: "selectedClassId (empty_page\<lparr>selectedClassId := Some 7\<rparr>) = Some 7" by simp
  have h2: "(7::int) \<noteq> 0" by simp
  have h3: "\<forall>t \<in> set (defectTypes (empty_page\<lparr>selectedClassId := Some 7\<rparr>)). type_id t \<noteq> 7"
    by (simp add: empty_page_def porosity_def)
  from add_with_unknown_class_is_silent [OF h1 h2 h3] h1 h2 show ?thesis by simp
qed

section \<open>The suggestion id and the mode\<close>

lemma apply_op_keeps_invariant:
  assumes "suggestion_only_in_active_learning (session (fst st))"
    and "a \<noteq> SelectMode manual \<or> currentSuggestionId (session (fst st)) = None"
  shows "suggestion_only_in_active_learning (session (fst (apply_op accepts reply a st)))"
proof (cases st)
  case (Pair p b)
  show ?thesis
  proof (cases a)
    case (SelectMode m)
    with assms Pair show ?thesis
      by (cases m) (auto simp: suggestion_only_in_active_learning_def selectMode_def)
  next
    case (AddAnnotation box)
    with assms Pair show ?thesis
      by (auto simp: suggestion_only_in_active_learning_def handleAddAnnotation_def
          split: option.splits)
  next
    case Save
    with assms Pair show ?thesis
      by (auto simp: suggestion_only_in_active_learning_def handleSaveAnnotations_def
          session_loadDefectTypes initial_session_def
          split: option.splits prod.splits bool.splits)
  qed (use assms Pair in \<open>auto simp: suggestion_only_in_active_learning_def
        handleImageUpload_def handleActiveLearningSelect_def handleRemoveAnnotation_def
        handleSkip_def initial_session_def\<close>)
qed

text \<open>
  Claim C5, as amended. From a session in which a suggestion id is set only in
  active-learning mode, every sequence of the operations \<^verbatim>\<open>selectMode\<close>,
  \<^verbatim>\<open>acquireImage\<close>, \<^verbatim>\<open>addAnnotation\<close>, \<^verbatim>\<open>removeAnnotation\<close>, \<^verbatim>\<open>save\<close> and \<^verbatim>\<open>skip\<close> in which
  \<^verbatim>\<open>selectMode(manual)\<close> is applied only while no suggestion id is set ends in a session
  with the same property.
\<close>

theorem suggestion_invariant_without_manual_switch:
  assumes "suggestion_only_in_active_learning (session (fst st))"
    and "keeps_suggestion_mode accepts reply ops st"
  shows "suggestion_only_in_active_learning (session (fst (run accepts reply ops st)))"
  using assms
proof (induction ops arbitrary: st)
  case Nil
  then show ?case by simp
next
  case (Cons a ops)
  from Cons.prems
  have "suggestion_only_in_active_learning (session (fst (apply_op accepts reply a st)))"
    by (intro apply_op_keeps_invariant) auto
  moreover from Cons.prems
  have "keeps_suggestion_mode accepts reply ops (apply_op accepts reply a st)"
    by simp
  ultimately show ?case using Cons.IH by simp
qed

text \<open>The round through both modes, started on the empty page.\<close>

theorem suggestion_invariant_without_manual_switch_witness:
  "suggestion_only_in_active_learning (session (fst (empty_page, empty_backend)))
   \<and> keeps_suggestion_mode accept_all no_types labeling_round (empty_page, empty_backend)
   \<and> suggestion_only_in_active_learning
       (session (fst (run accept_all no_types labeling_round (empty_page, empty_backend))))"
proof -
  have h1: "suggestion_only_in_active_learning (session (fst (empty_page, empty_backend)))"
    by (simp add: suggestion_only_in_active_learning_def concrete_defs)
  have h2: "keeps_suggestion_mode accept_all no_types labeling_round (empty_page, empty_backend)"
    by (simp add: labeling_round_def handler_defs concrete_defs enumerate_eq_zip)
  from suggestion_invariant_without_manual_switch [OF h1 h2] h1 h2 show ?thesis by simp
qed

text \<open>
  From the empty page: switch to active learning, open suggestion 42, press the manual
  mode button. The session is in manual mode with suggestion id 42 set.
\<close>

theorem suggestion_invariant_counterexample:
  "suggestion_only_in_active_learning (session (fst (empty_page, empty_backend)))
   \<and> \<not> suggestion_only_in_active_learning
       (session (fst (run accept_all no_types switch_back (empty_page, empty_backend))))
   \<and> mode (session (fst (run accept_all no_types switch_back (empty_page, empty_backend))))
       = manual
   \<and> currentSuggestionId
       (session (fst (run accept_all no_types switch_back (empty_page, empty_backend))))
       = Some 42"
  by (simp add: switch_back_def suggestion_only_in_active_learning_def handler_defs concrete_defs)

section \<open>The geometry of a drag\<close>

lemma js_min_commute: "js_min a b = js_min b a"
  by (cases a; cases b) (auto simp: js_min_def)

lemma js_max_commute: "js_max a b = js_max b a"
  by (cases a; cases b) (auto simp: js_max_def)

lemma clamp01_Num: "clamp01 (Num v) = Num (max 0 (min 1 v))"
  by (auto simp: clamp01_def js_min_def js_max_def)

lemma clamp01_infinite: "clamp01 PosInf = Num 1" "clamp01 NegInf = Num 0" "clamp01 NaN = NaN"
  by (simp_all add: clamp01_def js_min_def js_max_def)

lemma clamp01_in_unit_interval: "v \<noteq> NaN \<Longrightarrow> in_unit_interval (clamp01 v)"
  by (cases v) (auto simp: clamp01_Num clamp01_infinite in_unit_interval_def)

lemma getCanvasCoordinates_loaded:
  "loaded_image c = Some (w, h) \<Longrightarrow> \<exists>X Y. getCanvasCoordinates c m = Some (X, Y)"
  by (simp add: getCanvasCoordinates_def Let_def)

lemma getCanvasCoordinates_drawing:
  "getCanvasCoordinates (c\<lparr>isDrawing := d, drawStart := s, currentBox := cb\<rparr>) m =
   getCanvasCoordinates c m"
  by (simp add: getCanvasCoordinates_def split: option.splits)

lemma drag_box:
  assumes "selected = Some cid" and "cid \<noteq> 0"
    and "getCanvasCoordinates c m0 = Some (X0, Y0)"
    and "getCanvasCoordinates c m1 = Some (X1, Y1)"
  shows "currentBox (drag selected anns m0 m1 c) =
           Some (js_min X0 X1, js_min Y0 Y1, js_max X0 X1, js_max Y0 Y1)"
  using assms
  by (simp add: drag_def handleMouseDown_def handleMouseMove_def getCanvasCoordinates_drawing)

text \<open>
  The two corners of a drag may come in either order: with an image loaded and a class
  selected, the drag from \<open>m1\<close> to \<open>m0\<close> leaves the box of the drag from \<open>m0\<close> to \<open>m1\<close>.
\<close>

lemma drag_box_corner_symmetric:
  assumes "loaded_image c = Some (w, h)" and "selected = Some cid" and "cid \<noteq> 0"
  shows "currentBox (drag selected anns m1 m0 c) = currentBox (drag selected anns m0 m1 c)"
proof -
  from getCanvasCoordinates_loaded [OF assms(1), of m0] obtain X0 Y0 where
    a: "getCanvasCoordinates c m0 = Some (X0, Y0)" by blast
  from getCanvasCoordinates_loaded [OF assms(1), of m1] obtain X1 Y1 where
    b: "getCanvasCoordinates c m1 = Some (X1, Y1)" by blast
  show ?thesis
    unfolding drag_box [OF assms(2,3) a b] drag_box [OF assms(2,3) b a]
    by (simp add: js_min_commute [of X0 X1] js_min_commute [of Y0 Y1]
        js_max_commute [of X0 X1] js_max_commute [of Y0 Y1])
qed

text \<open>
  Where the scaled image has a width and a height other than 0, both coordinates of a
  mouse position are finite and lie in \<open>[0, 1]\<close>.
\<close>

lemma getCanvasCoordinates_clamped_at_nonzero_size:
  assumes "loaded_image c = Some (w, h)" and "w * scale c \<noteq> 0" and "h * scale c \<noteq> 0"
  shows "\<exists>X Y. getCanvasCoordinates c m = Some (Num X, Num Y)
           \<and> 0 \<le> X \<and> X \<le> 1 \<and> 0 \<le> Y \<and> Y \<le> 1"
  using assms by (simp add: getCanvasCoordinates_def Let_def js_div_def clamp01_Num)

text \<open>
  On the canvas at scale 1/2 the image is drawn from (150, 175) to (650, 425). A drag
  from (700, 100), right of and above the image, to (250, 400) gives the box
  (0.2, 0, 1, 0.9), and so does the drag back.
\<close>

lemma drag_on_idle_canvas:
  "getCanvasCoordinates idle_canvas (700, 100) = Some (Num 1, Num 0)
   \<and> getCanvasCoordinates idle_canvas (250, 400) = Some (Num (1/5), Num (9/10))
   \<and> currentBox (drag (Some 2) [] (700, 100) (250, 400) idle_canvas)
       = Some (finite_box (1/5, 0, 1, 9/10))
   \<and> currentBox (drag (Some 2) [] (250, 400) (700, 100) idle_canvas)
       = Some (finite_box (1/5, 0, 1, 9/10))"
  by (simp add: getCanvasCoordinates_def idle_canvas_def js_div_def clamp01_Num drag_def
      handleMouseDown_def handleMouseMove_def js_min_def js_max_def finite_box_def)

text \<open>
  Claim C9, at the canvas whose image was loaded into a container of width 0 (scale 0).
  The claim says that every normalized coordinate the mapping produces is clamped into
  \<open>[0, 1]\<close>. The mouse at the centre (400, 300) of the canvas is mapped to (NaN, NaN):
  both quotients are 0 / 0, and \<^verbatim>\<open>Math.max(0, Math.min(1, NaN))\<close> is NaN, which is not in
  \<open>[0, 1]\<close>. A drag that starts there has the box (NaN, NaN, NaN, NaN).
\<close>

theorem getCanvasCoordinates_zero_scale_not_clamped:
  "loaded_image zero_scale_canvas = Some (1000, 500)
   \<and> getCanvasCoordinates zero_scale_canvas (400, 300) = Some (NaN, NaN)
   \<and> \<not> in_unit_interval NaN
   \<and> getCanvasCoordinates zero_scale_canvas (700, 100) = Some (Num 1, Num 0)
   \<and> currentBox (drag (Some 2) [] (400, 300) (700, 100) zero_scale_canvas)
       = Some (NaN, NaN, NaN, NaN)"
  by (simp add: getCanvasCoordinates_def zero_scale_canvas_def idle_canvas_def js_div_def
      clamp01_infinite in_unit_interval_def drag_def handleMouseDown_def handleMouseMove_def
      js_min_def js_max_def)

end
